theory Spec2Isabelle
  imports Main
begin

section \<open>Python preliminaries\<close>

text \<open>
  The module \<^verbatim>\<open>pinax/stripe/admin.py\<close> is configuration for Django's admin site. Its
  functions are embedded one by one under their own names; a method \<^verbatim>\<open>C.m\<close> is the
  constant \<open>C_m\<close>, and \<^verbatim>\<open>self\<close> is replaced by the parts of it the method reads.
  What the framework supplies (the inherited \<^verbatim>\<open>get_actions\<close>, the model metadata, the
  tables behind a queryset) is a parameter of the embedded function.

  Exceptions are values: a function that can raise returns \<open>py_error + 'a\<close>.
\<close>

datatype py_error = KeyError string | AttributeError string | OperationalError

text \<open>
  An \<^verbatim>\<open>OrderedDict\<close> is an association list in insertion order. \<^verbatim>\<open>del d[k]\<close> removes
  the entry of \<open>k\<close> and raises \<^verbatim>\<open>KeyError\<close> when \<open>d\<close> has none.
\<close>

definition dict_keys :: "(string \<times> 'v) list \<Rightarrow> string list" where
  "dict_keys d = map fst d"

definition dict_del :: "string \<Rightarrow> (string \<times> 'v) list \<Rightarrow> py_error + (string \<times> 'v) list" where
  "dict_del k d =
     (if k \<in> set (dict_keys d) then Inr (filter (\<lambda>kv. fst kv \<noteq> k) d) else Inl (KeyError k))"

text \<open>
  \<^verbatim>\<open>list(set(xs))\<close>: the elements of \<open>xs\<close>, each once. Python leaves the iteration
  order of a set open; the embedding fixes one, and nothing
  proved below depends on the order.
\<close>

definition list_of_set :: "'a list \<Rightarrow> 'a list" where
  "list_of_set xs = remdups xs"

section \<open>Read-only admin classes\<close>

text \<open>
  A model field, as far as this module reads it, is its \<^verbatim>\<open>name\<close>; \<^verbatim>\<open>self.opts\<close> is the
  model's metadata with its \<^verbatim>\<open>local_fields\<close> and \<^verbatim>\<open>local_many_to_many\<close>.
\<close>

record field =
  name :: string

record options =
  local_fields :: "field list"
  local_many_to_many :: "field list"

text \<open>
  \<^verbatim>\<open>ReadOnlyAdmin.get_actions\<close>. The call \<^verbatim>\<open>super(ReadOnlyAdmin, self).get_actions(request)\<close>
  is the framework's; its result for a request is the parameter \<open>super_get_actions\<close>.
\<close>

definition ReadOnlyAdmin_get_actions ::
  "('req \<Rightarrow> (string \<times> 'act) list) \<Rightarrow> 'req \<Rightarrow> py_error + (string \<times> 'act) list" where
  "ReadOnlyAdmin_get_actions super_get_actions request =
     (let actions = super_get_actions request
      in dict_del ''delete_selected'' actions)"

definition ReadOnlyAdmin_has_add_permission :: "'req \<Rightarrow> 'obj option \<Rightarrow> bool" where
  "ReadOnlyAdmin_has_add_permission request obj = False"

definition ReadOnlyAdmin_has_delete_permission :: "'req \<Rightarrow> 'obj option \<Rightarrow> bool" where
  "ReadOnlyAdmin_has_delete_permission request obj = False"

definition ReadOnlyAdmin_get_readonly_fields :: "options \<Rightarrow> 'req \<Rightarrow> 'obj option \<Rightarrow> string list" where
  "ReadOnlyAdmin_get_readonly_fields opts request obj =
     list_of_set (map name (local_fields opts) @ map name (local_many_to_many opts))"

definition ReadOnlyInline_has_add_permission :: "'req \<Rightarrow> 'obj option \<Rightarrow> bool" where
  "ReadOnlyInline_has_add_permission request obj = False"

definition ReadOnlyInline_has_delete_permission :: "'req \<Rightarrow> 'obj option \<Rightarrow> bool" where
  "ReadOnlyInline_has_delete_permission request obj = False"

definition ReadOnlyInline_get_readonly_fields :: "options \<Rightarrow> 'req \<Rightarrow> 'obj option \<Rightarrow> string list" where
  "ReadOnlyInline_get_readonly_fields opts request obj =
     list_of_set (map name (local_fields opts) @ map name (local_many_to_many opts))"

text \<open>
  The classes registered with \<^verbatim>\<open>@admin.register\<close> all derive from \<^verbatim>\<open>ReadOnlyAdmin\<close>, the
  two inline classes from \<^verbatim>\<open>ReadOnlyInline\<close>, and none of them overrides a permission
  method: method lookup on any of them ends in the base class.
\<close>

datatype admin_class =
  ChargeAdmin | EventProcessingExceptionAdmin | EventAdmin | CustomerAdmin
  | InvoiceAdmin | PlanAdmin | TransferAdmin

datatype inline_class = SubscriptionInline | InvoiceItemInline

fun admin_has_add_permission :: "admin_class \<Rightarrow> 'req \<Rightarrow> 'obj option \<Rightarrow> bool" where
  "admin_has_add_permission ChargeAdmin = ReadOnlyAdmin_has_add_permission"
| "admin_has_add_permission EventProcessingExceptionAdmin = ReadOnlyAdmin_has_add_permission"
| "admin_has_add_permission EventAdmin = ReadOnlyAdmin_has_add_permission"
| "admin_has_add_permission CustomerAdmin = ReadOnlyAdmin_has_add_permission"
| "admin_has_add_permission InvoiceAdmin = ReadOnlyAdmin_has_add_permission"
| "admin_has_add_permission PlanAdmin = ReadOnlyAdmin_has_add_permission"
| "admin_has_add_permission TransferAdmin = ReadOnlyAdmin_has_add_permission"

fun admin_has_delete_permission :: "admin_class \<Rightarrow> 'req \<Rightarrow> 'obj option \<Rightarrow> bool" where
  "admin_has_delete_permission ChargeAdmin = ReadOnlyAdmin_has_delete_permission"
| "admin_has_delete_permission EventProcessingExceptionAdmin = ReadOnlyAdmin_has_delete_permission"
| "admin_has_delete_permission EventAdmin = ReadOnlyAdmin_has_delete_permission"
| "admin_has_delete_permission CustomerAdmin = ReadOnlyAdmin_has_delete_permission"
| "admin_has_delete_permission InvoiceAdmin = ReadOnlyAdmin_has_delete_permission"
| "admin_has_delete_permission PlanAdmin = ReadOnlyAdmin_has_delete_permission"
| "admin_has_delete_permission TransferAdmin = ReadOnlyAdmin_has_delete_permission"

fun inline_has_add_permission :: "inline_class \<Rightarrow> 'req \<Rightarrow> 'obj option \<Rightarrow> bool" where
  "inline_has_add_permission SubscriptionInline = ReadOnlyInline_has_add_permission"
| "inline_has_add_permission InvoiceItemInline = ReadOnlyInline_has_add_permission"

fun inline_has_delete_permission :: "inline_class \<Rightarrow> 'req \<Rightarrow> 'obj option \<Rightarrow> bool" where
  "inline_has_delete_permission SubscriptionInline = ReadOnlyInline_has_delete_permission"
| "inline_has_delete_permission InvoiceItemInline = ReadOnlyInline_has_delete_permission"

section \<open>Search fields\<close>

text \<open>
  \<^verbatim>\<open>User = get_user_model()\<close>: of the user model the module reads \<^verbatim>\<open>USERNAME_FIELD\<close> and
  the names of \<^verbatim>\<open>_meta.fields\<close>. \<^verbatim>\<open>"user__{0}".format(x)\<close> appends \<open>x\<close> to the prefix.
\<close>

record user_model =
  USERNAME_FIELD :: string
  meta_fields :: "field list"

definition user_search_fields :: "user_model \<Rightarrow> string list" where
  "user_search_fields User =
     (let fields = [''user__'' @ USERNAME_FIELD User]
      in if ''email'' \<in> set (map name (meta_fields User))
         then fields @ [''user__email'']
         else fields)"

definition customer_search_fields :: "user_model \<Rightarrow> string list" where
  "customer_search_fields User = map (\<lambda>field. ''customer__'' @ field) (user_search_fields User)"

text \<open>
  A class attribute is a Python value; of these the module builds strings, lists and
  tuples. An expression followed by a comma, \<^verbatim>\<open>x = e,\<close> binds \<open>x\<close> to the tuple \<^verbatim>\<open>(e,)\<close>.
\<close>

datatype pyval = PyStr string | PyList "pyval list" | PyTuple "pyval list"

definition ChargeAdmin_search_fields :: "user_model \<Rightarrow> pyval" where
  "ChargeAdmin_search_fields User =
     PyList (map PyStr ([''stripe_id'', ''customer__stripe_id'', ''invoice__stripe_id'']
                        @ customer_search_fields User))"

definition EventAdmin_search_fields :: "user_model \<Rightarrow> pyval" where
  "EventAdmin_search_fields User =
     PyList (map PyStr ([''stripe_id'', ''customer__stripe_id'', ''validated_message'']
                        @ customer_search_fields User))"

definition CustomerAdmin_search_fields :: "user_model \<Rightarrow> pyval" where
  "CustomerAdmin_search_fields User =
     PyTuple [PyList (map PyStr ([''stripe_id''] @ user_search_fields User))]"

definition InvoiceAdmin_search_fields :: "user_model \<Rightarrow> pyval" where
  "InvoiceAdmin_search_fields User =
     PyList (map PyStr ([''stripe_id'', ''customer__stripe_id''] @ customer_search_fields User))"

section \<open>Tables, querysets and \<^verbatim>\<open>Q\<close> objects\<close>

text \<open>
  The list filters receive a queryset and return one. The embedding takes a queryset as
  the list of its rows and reads the related tables from a database state. Of a row only
  the columns the lookups of this module touch are kept: the primary key of a customer,
  the customer of a card and its fingerprint, the customer of a subscription and its
  status, the customer of an invoice.
\<close>

record customer_row =
  customer_pk :: nat

record card_row =
  card_customer :: nat
  card_fingerprint :: string

record subscription_row =
  subscription_customer :: nat
  subscription_status :: string

record invoice_row =
  invoice_pk :: nat
  invoice_customer :: nat

record database =
  cards :: "card_row list"
  subscriptions :: "subscription_row list"

text \<open>
  The \<^verbatim>\<open>Q\<close> objects of this module: \<^verbatim>\<open>Q(<card>__fingerprint=s)\<close>, \<^verbatim>\<open>Q(<card>=None)\<close> and
  \<^verbatim>\<open>q1 | q2\<close>, where \<^verbatim>\<open><card>\<close> is the path to the cards: \<^verbatim>\<open>card\<close> from a customer,
  \<^verbatim>\<open>customer__card\<close> from an invoice. The path is given to the query operations as the
  function \<open>owner\<close> from a row to the key of the customer whose cards it reaches.

  The operations follow the framework's SQL. \<^verbatim>\<open>filter\<close> joins each row with the cards
  it reaches (a left outer join: a row without cards is joined once, with no card) and
  keeps the joined rows on which the condition holds, so a row is returned once for each
  card that makes the condition true. \<^verbatim>\<open>exclude\<close> over a to-many path tests each lookup
  in a subquery of its own and drops the rows that one of them selects. \<^verbatim>\<open>all\<close> copies.
\<close>

datatype q = Fingerprint_exact string | Card_isnull | Q_or q q

definition cards_of :: "database \<Rightarrow> nat \<Rightarrow> card_row list" where
  "cards_of db k = filter (\<lambda>c. card_customer c = k) (cards db)"

definition joined_cards :: "database \<Rightarrow> nat \<Rightarrow> card_row option list" where
  "joined_cards db k = (case cards_of db k of [] \<Rightarrow> [None] | c # cs \<Rightarrow> map Some (c # cs))"

fun q_row :: "q \<Rightarrow> card_row option \<Rightarrow> bool" where
  "q_row (Fingerprint_exact s) j = (case j of None \<Rightarrow> False | Some c \<Rightarrow> card_fingerprint c = s)"
| "q_row Card_isnull j = (j = None)"
| "q_row (Q_or a b) j = (q_row a j \<or> q_row b j)"

fun q_subquery :: "database \<Rightarrow> q \<Rightarrow> nat \<Rightarrow> bool" where
  "q_subquery db (Fingerprint_exact s) k = list_ex (\<lambda>c. card_fingerprint c = s) (cards_of db k)"
| "q_subquery db Card_isnull k = (cards_of db k = [])"
| "q_subquery db (Q_or a b) k = (q_subquery db a k \<or> q_subquery db b k)"

definition qs_filter :: "database \<Rightarrow> ('r \<Rightarrow> nat) \<Rightarrow> q \<Rightarrow> 'r list \<Rightarrow> 'r list" where
  "qs_filter db owner cond queryset =
     concat (map (\<lambda>r. map (\<lambda>_. r) (filter (q_row cond) (joined_cards db (owner r)))) queryset)"

definition qs_exclude :: "database \<Rightarrow> ('r \<Rightarrow> nat) \<Rightarrow> q \<Rightarrow> 'r list \<Rightarrow> 'r list" where
  "qs_exclude db owner cond queryset = filter (\<lambda>r. \<not> q_subquery db cond (owner r)) queryset"

definition qs_all :: "'r list \<Rightarrow> 'r list" where
  "qs_all queryset = queryset"

section \<open>List filters\<close>

text \<open>
  \<^verbatim>\<open>self.value()\<close> is the selected value of the filter: a string, or \<^verbatim>\<open>None\<close> when the
  request selects nothing. It is the parameter \<open>selected\<close>.
\<close>

definition no_card :: q where
  "no_card = Q_or (Fingerprint_exact '''') Card_isnull"

definition CustomerHasCardListFilter_lookups :: "string list list" where
  "CustomerHasCardListFilter_lookups = [[''yes'', ''Has Card''], [''no'', ''Does Not Have a Card'']]"

definition CustomerHasCardListFilter_queryset ::
  "database \<Rightarrow> string option \<Rightarrow> customer_row list \<Rightarrow> customer_row list" where
  "CustomerHasCardListFilter_queryset db selected queryset =
     (if selected = Some ''yes'' then qs_exclude db customer_pk no_card queryset
      else if selected = Some ''no'' then qs_filter db customer_pk no_card queryset
      else qs_all queryset)"

definition InvoiceCustomerHasCardListFilter_lookups :: "string list list" where
  "InvoiceCustomerHasCardListFilter_lookups =
     [[''yes'', ''Has Card''], [''no'', ''Does Not Have a Card'']]"

text \<open>
  The invoice filter reaches the cards over the two steps \<^verbatim>\<open>customer__card\<close>. For
  \<^verbatim>\<open>queryset.exclude(no_card)\<close> over that path the source records, in the comment of the
  \<^verbatim>\<open>yes\<close> branch, that the query worked when tried by hand and ended in an error under
  test. What the framework makes of the query is therefore the parameter
  \<open>queryset_exclude\<close>: the rows, or the error raised when the queryset is evaluated. The
  result of the method is the evaluated queryset, rows or error.
\<close>

definition InvoiceCustomerHasCardListFilter_queryset ::
  "(database \<Rightarrow> q \<Rightarrow> invoice_row list \<Rightarrow> py_error + invoice_row list)
     \<Rightarrow> database \<Rightarrow> string option \<Rightarrow> invoice_row list \<Rightarrow> py_error + invoice_row list" where
  "InvoiceCustomerHasCardListFilter_queryset queryset_exclude db selected queryset =
     (if selected = Some ''yes'' then queryset_exclude db no_card queryset
      else if selected = Some ''no'' then Inr (qs_filter db invoice_customer no_card queryset)
      else Inr (qs_all queryset))"

text \<open>
  \<^verbatim>\<open>CustomerSubscriptionStatusListFilter\<close>. \<^verbatim>\<open>x.replace("_", " ")\<close> exchanges one character
  for another; \<^verbatim>\<open>x.title()\<close> puts a letter in upper case when the character before it is
  not a letter and in lower case when it is. Python takes the letters and their cases
  from Unicode. The embedding is of ASCII strings, where a character is its byte and the
  letters are \<^verbatim>\<open>a-z\<close> and \<^verbatim>\<open>A-Z\<close>: on a string with other characters \<open>str_title\<close> is not
  Python's function, and labels are only spoken of for statuses that \<open>is_ascii\<close> holds of.
\<close>

definition is_ascii :: "string \<Rightarrow> bool" where
  "is_ascii s = list_all (\<lambda>c. (of_char c :: nat) < 128) s"

definition str_replace :: "char \<Rightarrow> char \<Rightarrow> string \<Rightarrow> string" where
  "str_replace old new s = map (\<lambda>c. if c = old then new else c) s"

definition is_lower :: "char \<Rightarrow> bool" where
  "is_lower c = (97 \<le> (of_char c :: nat) \<and> (of_char c :: nat) \<le> 122)"

definition is_upper :: "char \<Rightarrow> bool" where
  "is_upper c = (65 \<le> (of_char c :: nat) \<and> (of_char c :: nat) \<le> 90)"

definition is_cased :: "char \<Rightarrow> bool" where
  "is_cased c = (is_lower c \<or> is_upper c)"

definition to_upper :: "char \<Rightarrow> char" where
  "to_upper c = (if is_lower c then char_of (of_char c - 32 :: nat) else c)"

definition to_lower :: "char \<Rightarrow> char" where
  "to_lower c = (if is_upper c then char_of (of_char c + 32 :: nat) else c)"

fun title_from :: "bool \<Rightarrow> string \<Rightarrow> string" where
  "title_from previous_is_cased [] = []"
| "title_from previous_is_cased (c # cs) =
     (if previous_is_cased then to_lower c else to_upper c) # title_from (is_cased c) cs"

definition str_title :: "string \<Rightarrow> string" where
  "str_title s = title_from False s"

definition qs_distinct :: "'a list \<Rightarrow> 'a list" where
  "qs_distinct xs = remdups xs"

definition CustomerSubscriptionStatusListFilter_lookups :: "database \<Rightarrow> string list list" where
  "CustomerSubscriptionStatusListFilter_lookups db =
     (let statuses =
            map (\<lambda>x. [x, str_title (str_replace CHR ''_'' CHR '' '' x)])
              (qs_distinct (map subscription_status (subscriptions db)))
      in statuses @ [[''none'', ''No Subscription'']])"

text \<open>
  \<^verbatim>\<open>annotate(subs=Count('subscription'))\<close> pairs each customer with the number of its
  subscriptions. A string is true in a condition unless it is empty; \<^verbatim>\<open>None\<close> is false.
\<close>

definition annotate_count_subscription ::
  "database \<Rightarrow> customer_row list \<Rightarrow> (customer_row \<times> nat) list" where
  "annotate_count_subscription db queryset =
     map (\<lambda>c. (c, length (filter (\<lambda>s. subscription_customer s = customer_pk c) (subscriptions db))))
       queryset"

definition truthy :: "string option \<Rightarrow> bool" where
  "truthy v = (case v of None \<Rightarrow> False | Some s \<Rightarrow> s \<noteq> [])"

definition CustomerSubscriptionStatusListFilter_queryset ::
  "database \<Rightarrow> string option \<Rightarrow> customer_row list \<Rightarrow> customer_row list" where
  "CustomerSubscriptionStatusListFilter_queryset db selected queryset =
     (if selected = Some ''none'' then
        map fst (filter (\<lambda>cs. snd cs = 0) (annotate_count_subscription db queryset))
      else if truthy selected then
        (let customers =
               qs_distinct (map subscription_customer
                 (filter (\<lambda>s. Some (subscription_status s) = selected) (subscriptions db)))
         in filter (\<lambda>c. customer_pk c \<in> set customers) queryset)
      else qs_all queryset)"

section \<open>Display columns\<close>

text \<open>
  An object is read through its attributes: a list of attribute names with the text
  \<^verbatim>\<open>format\<close> prints for each value. \<^verbatim>\<open>getattr(o, n)\<close> raises \<^verbatim>\<open>AttributeError\<close> when \<open>o\<close> has
  no attribute \<open>n\<close> (as \<^verbatim>\<open>None\<close> has none); \<^verbatim>\<open>getattr(o, n, d)\<close> returns \<open>d\<close> then.
\<close>

type_synonym py_object = "(string \<times> string) list"

definition getattr :: "py_object \<Rightarrow> string \<Rightarrow> py_error + string" where
  "getattr obj n = (case map_of obj n of None \<Rightarrow> Inl (AttributeError n) | Some v \<Rightarrow> Inr v)"

definition getattr_default :: "py_object \<Rightarrow> string \<Rightarrow> string \<Rightarrow> string" where
  "getattr_default obj n d = (case map_of obj n of None \<Rightarrow> d | Some v \<Rightarrow> v)"

record customer_obj =
  user :: py_object

record invoice_obj =
  customer :: customer_obj
  invoice_attrs :: py_object

definition customer_user :: "user_model \<Rightarrow> invoice_obj \<Rightarrow> py_error + string" where
  "customer_user User obj =
     (case getattr (user (customer obj)) (USERNAME_FIELD User) of
        Inl e \<Rightarrow> Inl e
      | Inr username \<Rightarrow>
          (let email = getattr_default (invoice_attrs obj) ''email'' ''''
           in Inr (username @ '' <'' @ email @ ''>'')))"

section \<open>Conditions and example data\<close>

text \<open>
  The condition the card filters are said to select by: the customer with key \<open>k\<close> has no
  card, or has a card whose fingerprint is the empty string.
\<close>

definition customer_lacks_card :: "database \<Rightarrow> nat \<Rightarrow> bool" where
  "customer_lacks_card db k =
     ((\<forall>c \<in> set (cards db). card_customer c \<noteq> k)
      \<or> (\<exists>c \<in> set (cards db). card_customer c = k \<and> card_fingerprint c = ''''))"



text \<open>
  A small database: customer 1 has a card with a fingerprint, customer 2 two cards
  without one, customer 3 no card, customer 4 a card with and a card without one;
  customers 1 and 2 have subscriptions.
\<close>

definition example_db :: database where
  "example_db =
     \<lparr>cards =
        [\<lparr>card_customer = 1, card_fingerprint = ''abc''\<rparr>,
         \<lparr>card_customer = 2, card_fingerprint = ''''\<rparr>,
         \<lparr>card_customer = 2, card_fingerprint = ''''\<rparr>,
         \<lparr>card_customer = 4, card_fingerprint = ''x''\<rparr>,
         \<lparr>card_customer = 4, card_fingerprint = ''''\<rparr>],
      subscriptions =
        [\<lparr>subscription_customer = 1, subscription_status = ''active''\<rparr>,
         \<lparr>subscription_customer = 1, subscription_status = ''past_due''\<rparr>,
         \<lparr>subscription_customer = 2, subscription_status = ''active''\<rparr>]\<rparr>"

definition example_customers :: "customer_row list" where
  "example_customers = map (\<lambda>k. \<lparr>customer_pk = k\<rparr>) [1, 2, 3, 4]"

definition example_invoices :: "invoice_row list" where
  "example_invoices =
     [\<lparr>invoice_pk = 10, invoice_customer = 1\<rparr>, \<lparr>invoice_pk = 11, invoice_customer = 3\<rparr>]"

text \<open>
  A user model with the framework's default fields, and an invoice whose customer's user
  has a name and an e-mail address while the invoice itself has no \<^verbatim>\<open>email\<close> attribute.
\<close>

definition example_user_model :: user_model where
  "example_user_model =
     \<lparr>USERNAME_FIELD = ''username'',
      meta_fields = [\<lparr>name = ''id''\<rparr>, \<lparr>name = ''username''\<rparr>, \<lparr>name = ''email''\<rparr>]\<rparr>"


text \<open>
  The label the status filter is said to show for a status: its underscores replaced by
  spaces, and the result title-cased. Stated by position and from the alphabet itself: a
  character that is the first of the string or follows a character that is not a letter
  is put in upper case, any other in lower case.
\<close>

definition lower_letters :: string where
  "lower_letters = ''abcdefghijklmnopqrstuvwxyz''"

definition upper_letters :: string where
  "upper_letters = ''ABCDEFGHIJKLMNOPQRSTUVWXYZ''"

definition letter :: "char \<Rightarrow> bool" where
  "letter c = (c \<in> set lower_letters \<or> c \<in> set upper_letters)"

definition uppercase :: "char \<Rightarrow> char" where
  "uppercase c = (case map_of (zip lower_letters upper_letters) c of None \<Rightarrow> c | Some u \<Rightarrow> u)"

definition lowercase :: "char \<Rightarrow> char" where
  "lowercase c = (case map_of (zip upper_letters lower_letters) c of None \<Rightarrow> c | Some l \<Rightarrow> l)"

definition underscores_to_spaces :: "string \<Rightarrow> string" where
  "underscores_to_spaces s = map (\<lambda>i. if s ! i = CHR ''_'' then CHR '' '' else s ! i) [0..<length s]"

definition title_cased :: "string \<Rightarrow> string" where
  "title_cased s =
     map (\<lambda>i. if 0 < i \<and> letter (s ! (i - 1)) then lowercase (s ! i) else uppercase (s ! i))
       [0..<length s]"


text \<open>A framework on which the excluding query over \<^verbatim>\<open>customer__card\<close> ends in an error.\<close>

definition failing_exclude ::
  "database \<Rightarrow> q \<Rightarrow> invoice_row list \<Rightarrow> py_error + invoice_row list" where
  "failing_exclude db cond queryset = Inl OperationalError"

section \<open>Permissions and read-only fields\<close>

lemma dict_del_keys:
  "dict_del k d = Inr d' \<Longrightarrow> dict_keys d' = filter (\<lambda>x. x \<noteq> k) (dict_keys d)"
  by (auto simp: dict_del_def dict_keys_def filter_map comp_def split: if_splits)

lemma dict_del_returns:
  "k \<in> set (dict_keys d) \<Longrightarrow> dict_del k d = Inr (filter (\<lambda>kv. fst kv \<noteq> k) d)"
  by (simp add: dict_del_def)

lemma dict_del_raises:
  "k \<notin> set (dict_keys d) \<Longrightarrow> dict_del k d = Inl (KeyError k)"
  by (simp add: dict_del_def)

text \<open>
  C1. Whatever the request and the object (\<open>None\<close> included), \<^verbatim>\<open>has_add_permission\<close> and
  \<^verbatim>\<open>has_delete_permission\<close> of \<^verbatim>\<open>ReadOnlyAdmin\<close> and of \<^verbatim>\<open>ReadOnlyInline\<close> return
  \<^verbatim>\<open>False\<close>, and so do the methods every registered admin class and every inline class
  inherits.
\<close>

theorem C1_add_delete_disabled:
  "\<not> ReadOnlyAdmin_has_add_permission request obj
   \<and> \<not> ReadOnlyAdmin_has_delete_permission request obj
   \<and> \<not> ReadOnlyInline_has_add_permission request obj
   \<and> \<not> ReadOnlyInline_has_delete_permission request obj
   \<and> \<not> admin_has_add_permission cls request obj
   \<and> \<not> admin_has_delete_permission cls request obj
   \<and> \<not> inline_has_add_permission icls request obj
   \<and> \<not> inline_has_delete_permission icls request obj"
proof -
  have a: "\<not> admin_has_add_permission cls request obj"
    by (cases cls) (simp_all add: ReadOnlyAdmin_has_add_permission_def)
  have d: "\<not> admin_has_delete_permission cls request obj"
    by (cases cls) (simp_all add: ReadOnlyAdmin_has_delete_permission_def)
  have ia: "\<not> inline_has_add_permission icls request obj"
    by (cases icls) (simp_all add: ReadOnlyInline_has_add_permission_def)
  have id: "\<not> inline_has_delete_permission icls request obj"
    by (cases icls) (simp_all add: ReadOnlyInline_has_delete_permission_def)
  from a d ia id show ?thesis
    by (simp add: ReadOnlyAdmin_has_add_permission_def ReadOnlyAdmin_has_delete_permission_def
        ReadOnlyInline_has_add_permission_def ReadOnlyInline_has_delete_permission_def)
qed

text \<open>
  C2. Whatever the request and the object, \<^verbatim>\<open>get_readonly_fields\<close> of \<^verbatim>\<open>ReadOnlyAdmin\<close>
  and of \<^verbatim>\<open>ReadOnlyInline\<close> returns a list whose elements are exactly the names of the
  model's local fields and of its local many-to-many fields, each name once.
\<close>

theorem C2_readonly_fields_exact:
  "set (ReadOnlyAdmin_get_readonly_fields opts request obj)
     = name ` set (local_fields opts) \<union> name ` set (local_many_to_many opts)
   \<and> distinct (ReadOnlyAdmin_get_readonly_fields opts request obj)
   \<and> set (ReadOnlyInline_get_readonly_fields opts request obj)
     = name ` set (local_fields opts) \<union> name ` set (local_many_to_many opts)
   \<and> distinct (ReadOnlyInline_get_readonly_fields opts request obj)"
  by (simp add: ReadOnlyAdmin_get_readonly_fields_def ReadOnlyInline_get_readonly_fields_def
      list_of_set_def)

text \<open>
  C3. The mapping \<^verbatim>\<open>ReadOnlyAdmin.get_actions\<close> returns never has the key
  \<^verbatim>\<open>delete_selected\<close>: every other inherited action is kept, in order. The method returns
  whenever the inherited mapping has that key.
\<close>

theorem C3_delete_selected_absent:
  "(ReadOnlyAdmin_get_actions super_get_actions request = Inr actions \<longrightarrow>
      ''delete_selected'' \<notin> set (dict_keys actions)
      \<and> dict_keys actions
          = filter (\<lambda>k. k \<noteq> ''delete_selected'') (dict_keys (super_get_actions request)))
   \<and> (''delete_selected'' \<in> set (dict_keys (super_get_actions request)) \<longrightarrow>
      (\<exists>actions. ReadOnlyAdmin_get_actions super_get_actions request = Inr actions))"
proof (intro conjI impI)
  assume r: "ReadOnlyAdmin_get_actions super_get_actions request = Inr actions"
  then have "dict_del ''delete_selected'' (super_get_actions request) = Inr actions"
    by (simp add: ReadOnlyAdmin_get_actions_def)
  then show k: "dict_keys actions
      = filter (\<lambda>k. k \<noteq> ''delete_selected'') (dict_keys (super_get_actions request))"
    by (rule dict_del_keys)
  show "''delete_selected'' \<notin> set (dict_keys actions)"
    unfolding k by simp
next
  assume "''delete_selected'' \<in> set (dict_keys (super_get_actions request))"
  then show "\<exists>actions. ReadOnlyAdmin_get_actions super_get_actions request = Inr actions"
    by (simp add: ReadOnlyAdmin_get_actions_def dict_del_returns)
qed

theorem C3_delete_selected_absent_witness:
  "ReadOnlyAdmin_get_actions
       (\<lambda>_. [(''export'', 1::nat), (''delete_selected'', 2), (''archive'', 3)]) ()
     = Inr [(''export'', 1), (''archive'', 3)]
   \<and> ''delete_selected'' \<notin> set (dict_keys [(''export'', 1::nat), (''archive'', 3)])
   \<and> ''delete_selected''
       \<in> set (dict_keys [(''export'', 1::nat), (''delete_selected'', 2), (''archive'', 3)])"
proof -
  have r: "ReadOnlyAdmin_get_actions
       (\<lambda>_. [(''export'', 1::nat), (''delete_selected'', 2), (''archive'', 3)]) ()
     = Inr [(''export'', 1), (''archive'', 3)]"
    by (simp add: ReadOnlyAdmin_get_actions_def dict_del_def dict_keys_def)
  from C3_delete_selected_absent
    [of "\<lambda>_. [(''export'', 1::nat), (''delete_selected'', 2), (''archive'', 3)]" "()"
        "[(''export'', 1), (''archive'', 3)]"] r
  have "''delete_selected'' \<notin> set (dict_keys [(''export'', 1::nat), (''archive'', 3)])"
    by blast
  with r show ?thesis by (simp add: dict_keys_def)
qed

text \<open>
  C7. \<^verbatim>\<open>ReadOnlyAdmin.get_actions\<close> raises \<^verbatim>\<open>KeyError\<close> when the inherited mapping has no
  entry \<^verbatim>\<open>delete_selected\<close>, as for the empty mapping the framework returns when actions
  are switched off for the page.
\<close>

theorem C7_get_actions_raises:
  "ReadOnlyAdmin_get_actions (\<lambda>_. ([] :: (string \<times> nat) list)) ()
     = Inl (KeyError ''delete_selected'')"
  by (simp add: ReadOnlyAdmin_get_actions_def dict_del_def dict_keys_def)

section \<open>List filters: what they return\<close>

lemma set_joined_cards:
  "set (joined_cards db k)
     = (if cards_of db k = [] then {None} else Some ` set (cards_of db k))"
  by (simp add: joined_cards_def split: list.splits)

lemma set_qs_filter:
  "set (qs_filter db owner cond queryset)
     = {r \<in> set queryset. \<exists>j \<in> set (joined_cards db (owner r)). q_row cond j}"
  by (auto simp: qs_filter_def)

lemma set_qs_exclude:
  "set (qs_exclude db owner cond queryset)
     = {r \<in> set queryset. \<not> q_subquery db cond (owner r)}"
  by (auto simp: qs_exclude_def)

lemma cards_of_empty: "(cards_of db k = []) = (\<forall>c \<in> set (cards db). card_customer c \<noteq> k)"
  by (auto simp: cards_of_def filter_empty_conv)

lemma cards_of_member:
  "(\<exists>c \<in> set (cards_of db k). card_fingerprint c = s)
     = (\<exists>c \<in> set (cards db). card_customer c = k \<and> card_fingerprint c = s)"
  by (auto simp: cards_of_def)

lemma joined_no_card:
  "(\<exists>j \<in> set (joined_cards db k). q_row no_card j) = customer_lacks_card db k"
proof (cases "cards_of db k = []")
  case True
  then show ?thesis
    by (simp add: set_joined_cards no_card_def customer_lacks_card_def cards_of_empty)
next
  case False
  then have "(\<exists>j \<in> set (joined_cards db k). q_row no_card j)
      = (\<exists>c \<in> set (cards_of db k). card_fingerprint c = '''')"
    by (simp add: set_joined_cards no_card_def)
  also have "\<dots> = customer_lacks_card db k"
    using False by (auto simp: cards_of_member customer_lacks_card_def cards_of_empty)
  finally show ?thesis .
qed

lemma subquery_no_card: "q_subquery db no_card k = customer_lacks_card db k"
  by (auto simp: no_card_def customer_lacks_card_def list_ex_iff cards_of_member cards_of_empty)

lemma filter_no_card:
  "set (qs_filter db owner no_card queryset)
     = {r \<in> set queryset. customer_lacks_card db (owner r)}"
  by (simp add: set_qs_filter joined_no_card)

lemma exclude_no_card:
  "set (qs_exclude db owner no_card queryset)
     = {r \<in> set queryset. \<not> customer_lacks_card db (owner r)}"
  by (simp add: set_qs_exclude subquery_no_card)

lemma card_filter_row_sets:
  "set (CustomerHasCardListFilter_queryset db (Some ''no'') customers)
     = {c \<in> set customers. customer_lacks_card db (customer_pk c)}
   \<and> CustomerHasCardListFilter_queryset db (Some ''yes'') customers
     = filter (\<lambda>c. \<not> customer_lacks_card db (customer_pk c)) customers
   \<and> (\<exists>rows. InvoiceCustomerHasCardListFilter_queryset queryset_exclude db (Some ''no'') invoices
               = Inr rows
             \<and> set rows = {i \<in> set invoices. customer_lacks_card db (invoice_customer i)})"
  by (simp add: CustomerHasCardListFilter_queryset_def InvoiceCustomerHasCardListFilter_queryset_def
      filter_no_card qs_exclude_def subquery_no_card)

lemma example_customers_lacking_card:
  "filter (\<lambda>c. customer_lacks_card example_db (customer_pk c)) example_customers
     = [\<lparr>customer_pk = 2\<rparr>, \<lparr>customer_pk = 3\<rparr>, \<lparr>customer_pk = 4\<rparr>]"
  by (simp add: customer_lacks_card_def example_db_def example_customers_def)

text \<open>
  C4. The card filters do not return exactly the records the condition selects. With
  \<^verbatim>\<open>no\<close> selected a record is returned once for each card without a fingerprint: the
  customer with two such cards comes twice. With \<^verbatim>\<open>yes\<close> selected the invoice filter
  returns what the framework makes of the excluding query, an error where that fails.
\<close>

theorem C4_card_filter_repeats_and_fails:
  "CustomerHasCardListFilter_queryset example_db (Some ''no'') example_customers
     = [\<lparr>customer_pk = 2\<rparr>, \<lparr>customer_pk = 2\<rparr>, \<lparr>customer_pk = 3\<rparr>, \<lparr>customer_pk = 4\<rparr>]
   \<and> InvoiceCustomerHasCardListFilter_queryset failing_exclude example_db (Some ''yes'')
       example_invoices
     = Inl OperationalError"
  by (simp add: CustomerHasCardListFilter_queryset_def InvoiceCustomerHasCardListFilter_queryset_def
      qs_filter_def joined_cards_def cards_of_def no_card_def
      example_db_def example_customers_def failing_exclude_def)





text \<open>
  C8. A card filter whose selected value is neither \<^verbatim>\<open>yes\<close> nor \<^verbatim>\<open>no\<close> (\<^verbatim>\<open>None\<close> included)
  returns the queryset it was given, and so does the subscription status filter when
  nothing, or the empty string, is selected.
\<close>

theorem C8_filters_identity_unselected:
  "(selected \<noteq> Some ''yes'' \<and> selected \<noteq> Some ''no'' \<longrightarrow>
      CustomerHasCardListFilter_queryset db selected customers = customers
      \<and> InvoiceCustomerHasCardListFilter_queryset queryset_exclude db selected invoices
          = Inr invoices)
   \<and> CustomerSubscriptionStatusListFilter_queryset db None customers = customers
   \<and> CustomerSubscriptionStatusListFilter_queryset db (Some '''') customers = customers"
  by (simp add: CustomerHasCardListFilter_queryset_def InvoiceCustomerHasCardListFilter_queryset_def
      CustomerSubscriptionStatusListFilter_queryset_def qs_all_def truthy_def)

theorem C8_filters_identity_unselected_witness:
  "Some ''maybe'' \<noteq> Some ''yes'' \<and> Some ''maybe'' \<noteq> Some ''no''
   \<and> CustomerHasCardListFilter_queryset example_db (Some ''maybe'') example_customers
       = example_customers
   \<and> InvoiceCustomerHasCardListFilter_queryset failing_exclude example_db (Some ''maybe'')
         example_invoices
       = Inr example_invoices
   \<and> CustomerHasCardListFilter_queryset example_db None example_customers = example_customers
   \<and> CustomerSubscriptionStatusListFilter_queryset example_db None example_customers
       = example_customers"
  using C8_filters_identity_unselected
      [of "Some ''maybe''" example_db example_customers failing_exclude example_invoices]
    C8_filters_identity_unselected
      [of None example_db example_customers failing_exclude example_invoices]
  by simp

section \<open>Lookups of the subscription status filter\<close>

lemma length_title_from: "length (title_from b s) = length s"
  by (induction s arbitrary: b) simp_all

lemma title_from_nth:
  "i < length s \<Longrightarrow>
     title_from b s ! i
       = (if (if i = 0 then b else is_cased (s ! (i - 1))) then to_lower (s ! i)
          else to_upper (s ! i))"
proof (induction s arbitrary: b i)
  case Nil
  then show ?case by simp
next
  case (Cons c cs)
  show ?case
  proof (cases i)
    case 0
    then show ?thesis by simp
  next
    case (Suc j)
    with Cons.prems have "j < length cs" by simp
    from Cons.IH [OF this, of "is_cased c"] Suc show ?thesis
      by (cases j) simp_all
  qed
qed

lemma str_title_nth:
  "i < length s \<Longrightarrow>
     str_title s ! i
       = (if 0 < i \<and> is_cased (s ! (i - 1)) then to_lower (s ! i) else to_upper (s ! i))"
  by (simp add: str_title_def title_from_nth)

lemma str_title_examples:
  "str_title (str_replace CHR ''_'' CHR '' '' ''past_due'') = ''Past Due''"
  "str_title (str_replace CHR ''_'' CHR '' '' ''trialing'') = ''Trialing''"
  "str_title (str_replace CHR ''_'' CHR '' '' ''ACTIVE'') = ''Active''"
  by code_simp+

lemma char_tables:
  "list_all (\<lambda>c. to_upper c = uppercase c \<and> to_lower c = lowercase c \<and> is_cased c = letter c)
     (Enum.enum :: char list)"
  by code_simp

lemma char_cases:
  "to_upper c = uppercase c" "to_lower c = lowercase c" "is_cased c = letter c"
proof -
  have "c \<in> set (Enum.enum :: char list)"
    by (simp add: enum_UNIV)
  with char_tables
  have "to_upper c = uppercase c \<and> to_lower c = lowercase c \<and> is_cased c = letter c"
    unfolding list_all_iff by blast
  then show "to_upper c = uppercase c" "to_lower c = lowercase c" "is_cased c = letter c"
    by simp_all
qed

lemma str_title_title_cased: "str_title s = title_cased s"
proof (rule nth_equalityI)
  show "length (str_title s) = length (title_cased s)"
    by (simp add: str_title_def title_cased_def length_title_from)
next
  fix i
  assume "i < length (str_title s)"
  then have i: "i < length s"
    by (simp add: str_title_def length_title_from)
  then show "str_title s ! i = title_cased s ! i"
    by (simp add: str_title_nth title_cased_def char_cases)
qed

lemma str_replace_underscores:
  "str_replace CHR ''_'' CHR '' '' s = underscores_to_spaces s"
  by (rule nth_equalityI) (simp_all add: str_replace_def underscores_to_spaces_def)

text \<open>
  C10. For a database whose statuses are ASCII, \<^verbatim>\<open>lookups\<close> returns one entry for each
  distinct subscription status, the status paired with its label (underscores replaced by
  spaces, then title-cased), followed by the one entry \<^verbatim>\<open>["none", "No Subscription"]\<close>.
\<close>

theorem C10_status_lookups:
  assumes "list_all is_ascii (map subscription_status (subscriptions db))"
  shows "\<exists>statuses.
     distinct statuses
     \<and> set statuses = subscription_status ` set (subscriptions db)
     \<and> CustomerSubscriptionStatusListFilter_lookups db
         = map (\<lambda>x. [x, title_cased (underscores_to_spaces x)]) statuses
           @ [[''none'', ''No Subscription'']]"
proof (intro exI conjI)
  show "distinct (qs_distinct (map subscription_status (subscriptions db)))"
    by (simp add: qs_distinct_def)
  show "set (qs_distinct (map subscription_status (subscriptions db)))
      = subscription_status ` set (subscriptions db)"
    by (simp add: qs_distinct_def)
  show "CustomerSubscriptionStatusListFilter_lookups db
      = map (\<lambda>x. [x, title_cased (underscores_to_spaces x)])
          (qs_distinct (map subscription_status (subscriptions db)))
        @ [[''none'', ''No Subscription'']]"
    by (simp add: CustomerSubscriptionStatusListFilter_lookups_def str_title_title_cased
        str_replace_underscores)
qed

theorem C10_status_lookups_witness:
  "list_all is_ascii (map subscription_status (subscriptions example_db))
   \<and> (\<exists>statuses.
        distinct statuses
        \<and> set statuses = {''active'', ''past_due''}
        \<and> CustomerSubscriptionStatusListFilter_lookups example_db
            = map (\<lambda>x. [x, title_cased (underscores_to_spaces x)]) statuses
              @ [[''none'', ''No Subscription'']])
   \<and> title_cased (underscores_to_spaces ''past_due'') = ''Past Due''
   \<and> title_cased (underscores_to_spaces ''active'') = ''Active''"
proof -
  have a: "list_all is_ascii (map subscription_status (subscriptions example_db))"
    by (simp add: example_db_def is_ascii_def)
  have s: "subscription_status ` set (subscriptions example_db) = {''active'', ''past_due''}"
    by (auto simp: example_db_def)
  have l: "title_cased (underscores_to_spaces ''past_due'') = ''Past Due''"
    "title_cased (underscores_to_spaces ''active'') = ''Active''"
    by code_simp+
  from C10_status_lookups [OF a] s a l show ?thesis
    by simp
qed

section \<open>The customer column of an invoice\<close>

lemma customer_user_raises:
  "map_of (user (customer obj)) (USERNAME_FIELD User) = None \<Longrightarrow>
     customer_user User obj = Inl (AttributeError (USERNAME_FIELD User))"
  by (simp add: customer_user_def getattr_def)




section \<open>Search fields of the admin classes\<close>

lemma user_search_fields_eq:
  "user_search_fields User
     = (''user__'' @ USERNAME_FIELD User)
       # (if ''email'' \<in> name ` set (meta_fields User) then [''user__email''] else [])"
  by (simp add: user_search_fields_def)

lemma InvoiceAdmin_search_fields_example:
  "InvoiceAdmin_search_fields example_user_model
     = PyList [PyStr ''stripe_id'', PyStr ''customer__stripe_id'',
               PyStr ''customer__user__username'', PyStr ''customer__user__email'']"
  by (simp add: InvoiceAdmin_search_fields_def customer_search_fields_def user_search_fields_def
      example_user_model_def)

text \<open>
  C6. The \<^verbatim>\<open>search_fields\<close> of \<^verbatim>\<open>CustomerAdmin\<close> is not the list of \<^verbatim>\<open>stripe_id\<close> and the user
  search fields: the assignment ends in a comma, so the attribute is a tuple whose one
  element is that list.
\<close>

theorem C6_customer_search_fields_tuple:
  "CustomerAdmin_search_fields example_user_model
     = PyTuple [PyList [PyStr ''stripe_id'', PyStr ''user__username'', PyStr ''user__email'']]
   \<and> CustomerAdmin_search_fields example_user_model
     \<noteq> PyList [PyStr ''stripe_id'', PyStr ''user__username'', PyStr ''user__email'']"
  by (simp add: CustomerAdmin_search_fields_def user_search_fields_def example_user_model_def)

end
